theory Spec2Isabelle
  imports Main "HOL-Library.Word" "HOL-Library.Char_ord"
begin

unbundle bit_operations_syntax

section \<open>The PyPI upload plugin: validation and invocation core\<close>

text \<open>
  A shallow embedding of \<^verbatim>\<open>plugin.go\<close>. Go strings are byte sequences, so a Go
  \<^verbatim>\<open>string\<close> is a \<^typ>\<open>string\<close> (a list of 8-bit characters) and \<^verbatim>\<open>len\<close> is
  \<^const>\<open>length\<close>. A Go \<^verbatim>\<open>error\<close> is represented by its message: the program only ever
  formats errors, and \<^verbatim>\<open>nil\<close> is \<^const>\<open>None\<close>. The functions of Go's standard library
  that the plugin calls are modelled for a POSIX build (path separator \<^verbatim>\<open>/\<close>), under
  the name of the package they come from.
\<close>

subsection \<open>Package strings\<close>

definition strings_HasPrefix :: "string \<Rightarrow> string \<Rightarrow> bool" where
  "strings_HasPrefix s pre = (length pre \<le> length s \<and> take (length pre) s = pre)"

definition strings_TrimPrefix :: "string \<Rightarrow> string \<Rightarrow> string" where
  "strings_TrimPrefix s pre = (if strings_HasPrefix s pre then drop (length pre) s else s)"

fun strings_Contains :: "string \<Rightarrow> string \<Rightarrow> bool" where
  "strings_Contains [] substr = (substr = [])"
| "strings_Contains (c # cs) substr =
     (if strings_HasPrefix (c # cs) substr then True else strings_Contains cs substr)"

text \<open>\<^verbatim>\<open>strings.ReplaceAll(s, old, new)\<close> for a one-byte \<^verbatim>\<open>old\<close>, the only use the
  plugin makes of it.\<close>

fun strings_ReplaceAll :: "string \<Rightarrow> char \<Rightarrow> string \<Rightarrow> string" where
  "strings_ReplaceAll [] old new = []"
| "strings_ReplaceAll (c # cs) old new =
     (if c = old then new @ strings_ReplaceAll cs old new
      else c # strings_ReplaceAll cs old new)"

subsection \<open>Package path/filepath (POSIX)\<close>

definition filepath_Separator :: char where
  "filepath_Separator = CHR ''/''"

definition os_IsPathSeparator :: "char \<Rightarrow> bool" where
  "os_IsPathSeparator c = (c = filepath_Separator)"

definition filepath_IsAbs :: "string \<Rightarrow> bool" where
  "filepath_IsAbs path = strings_HasPrefix path ''/''"

text \<open>
  \<^verbatim>\<open>filepath.Clean\<close> reads the path at index \<^verbatim>\<open>r\<close> and writes a buffer of \<^verbatim>\<open>w\<close>
  bytes; \<^verbatim>\<open>dotdot\<close> is the index in the buffer below which a \<^verbatim>\<open>..\<close> element may not
  backtrack. Here the unread part of the path is the list \<open>rest\<close> and the buffer is
  the list \<open>out\<close> (so \<^verbatim>\<open>w\<close> is its length).

  Backtracking over the last element: \<^verbatim>\<open>out.w--\<close>, then
  \<^verbatim>\<open>for out.w > dotdot && !os.IsPathSeparator(out.index(out.w)) { out.w-- }\<close>.
  In the case of a \<^verbatim>\<open>..\<close> element Go reads \<^verbatim>\<open>path[r+1]\<close> without a bounds check:
  the byte exists because the case of a \<^verbatim>\<open>.\<close> element did not apply. The model
  writes the bound out (\<open>cs \<noteq> []\<close>).
\<close>

fun clean_backtrack :: "string \<Rightarrow> nat \<Rightarrow> nat \<Rightarrow> nat" where
  "clean_backtrack out dotdot w =
     (if dotdot < w \<and> \<not> os_IsPathSeparator (out ! w)
      then clean_backtrack out dotdot (w - 1) else w)"

declare clean_backtrack.simps [simp del]

function clean_loop :: "bool \<Rightarrow> string \<Rightarrow> string \<Rightarrow> nat \<Rightarrow> string" where
  "clean_loop rooted [] out dotdot = out"
| "clean_loop rooted (c # cs) out dotdot =
     (if os_IsPathSeparator c then
        \<comment> \<open>empty path element\<close>
        clean_loop rooted cs out dotdot
      else if c = CHR ''.'' \<and> (cs = [] \<or> os_IsPathSeparator (hd cs)) then
        \<comment> \<open>. element\<close>
        clean_loop rooted cs out dotdot
      else if c = CHR ''.'' \<and> cs \<noteq> [] \<and> hd cs = CHR ''.'' \<and>
              (tl cs = [] \<or> os_IsPathSeparator (hd (tl cs))) then
        \<comment> \<open>.. element: remove to last separator\<close>
        (if dotdot < length out then
           clean_loop rooted (tl cs)
             (take (clean_backtrack out dotdot (length out - 1)) out) dotdot
         else if \<not> rooted then
           (let out' = (if 0 < length out then out @ [filepath_Separator] else out) @ ''..''
            in clean_loop rooted (tl cs) out' (length out'))
         else clean_loop rooted (tl cs) out dotdot)
      else
        \<comment> \<open>real path element: add slash if needed, copy element\<close>
        (let out' = (if rooted \<and> length out \<noteq> 1 \<or> \<not> rooted \<and> length out \<noteq> 0
                     then out @ [filepath_Separator] else out)
         in clean_loop rooted (dropWhile (\<lambda>x. \<not> os_IsPathSeparator x) (c # cs))
              (out' @ takeWhile (\<lambda>x. \<not> os_IsPathSeparator x) (c # cs)) dotdot))"
  by pat_completeness auto
termination
  by (relation "measure (\<lambda>(rooted, rest, out, dotdot). length rest)")
     (auto simp: le_imp_less_Suc length_dropWhile_le)

declare clean_loop.simps [simp del]

definition filepath_Clean :: "string \<Rightarrow> string" where
  "filepath_Clean path =
     (if path = [] then ''.''
      else
        let rooted = os_IsPathSeparator (hd path);
            out = (if rooted then clean_loop rooted (tl path) [filepath_Separator] 1
                   else clean_loop rooted path [] 0)
        in if out = [] then ''.'' else out)"

subsection \<open>Package regexp: the pattern of dist paths\<close>

text \<open>
  \<^verbatim>\<open>distPathPattern = regexp.MustCompile(`^[a-zA-Z0-9._/*-]+$`)\<close>: the whole text is
  one or more characters of the class (without the multi-line flag, \<^verbatim>\<open>$\<close> matches
  only at the end of the text). Every character of the class is ASCII, so a byte
  outside it, alone or as part of a longer encoding, makes the match fail.
\<close>

definition distPathClass :: "char \<Rightarrow> bool" where
  "distPathClass c =
     ((CHR ''a'' \<le> c \<and> c \<le> CHR ''z'') \<or> (CHR ''A'' \<le> c \<and> c \<le> CHR ''Z'') \<or>
      (CHR ''0'' \<le> c \<and> c \<le> CHR ''9'') \<or>
      c = CHR ''.'' \<or> c = CHR ''_'' \<or> c = CHR ''/'' \<or> c = CHR ''*'' \<or> c = CHR ''-'')"

definition distPathPattern_MatchString :: "string \<Rightarrow> bool" where
  "distPathPattern_MatchString s = (s \<noteq> [] \<and> list_all distPathClass s)"

subsection \<open>validateDistPath\<close>

definition validateDistPath :: "string \<Rightarrow> string option" where
  "validateDistPath path =
     (if path = [] then Some ''dist path cannot be empty''
      else if length path > 256 then Some ''dist path too long (max 256 characters)''
      else if \<not> distPathPattern_MatchString path then
        Some ''dist path contains invalid characters''
      else
        let cleaned = filepath_Clean path;
            pathWithoutGlob = strings_ReplaceAll cleaned (CHR ''*'') ''''
        in if strings_HasPrefix pathWithoutGlob ''..'' \<or>
              strings_Contains pathWithoutGlob ([filepath_Separator] @ ''..'')
           then Some ''path traversal detected: cannot use '..' to escape working directory''
           else if filepath_IsAbs path then Some ''absolute paths are not allowed''
           else None)"

subsection \<open>Package net: addresses and networks\<close>

text \<open>
  A \<^verbatim>\<open>net.IP\<close> is a byte slice: 4 bytes for an IPv4 address, 16 bytes for an IPv6
  address or for an IPv4 address in its IPv4-mapped form \<^verbatim>\<open>::ffff:a.b.c.d\<close>.
\<close>

type_synonym byte = "8 word"
type_synonym IP = "byte list"
type_synonym IPMask = "byte list"

record IPNet =
  IP :: IP
  Mask :: IPMask

definition v4InV6Prefix :: "byte list" where
  "v4InV6Prefix = [0, 0, 0, 0, 0, 0, 0, 0, 0, 0, 0xff, 0xff]"

definition IPv6loopback :: IP where
  "IPv6loopback = [0, 0, 0, 0, 0, 0, 0, 0, 0, 0, 0, 0, 0, 0, 0, 1]"

definition IP_To4 :: "IP \<Rightarrow> IP option" where
  "IP_To4 ip =
     (if length ip = 4 then Some ip
      else if length ip = 16 \<and> list_all (\<lambda>b. b = 0) (take 10 ip) \<and>
              ip ! 10 = 0xff \<and> ip ! 11 = 0xff
      then Some (drop 12 ip)
      else None)"

definition IP_Equal :: "IP \<Rightarrow> IP \<Rightarrow> bool" where
  "IP_Equal ip x =
     (if length ip = length x then ip = x
      else if length ip = 4 \<and> length x = 16 then take 12 x = v4InV6Prefix \<and> ip = drop 12 x
      else if length ip = 16 \<and> length x = 4 then take 12 ip = v4InV6Prefix \<and> drop 12 ip = x
      else False)"

definition IP_IsLoopback :: "IP \<Rightarrow> bool" where
  "IP_IsLoopback ip =
     (case IP_To4 ip of
        Some ip4 \<Rightarrow> ip4 ! 0 = 127
      | None \<Rightarrow> IP_Equal ip IPv6loopback)"

definition IP_IsLinkLocalUnicast :: "IP \<Rightarrow> bool" where
  "IP_IsLinkLocalUnicast ip =
     (case IP_To4 ip of
        Some ip4 \<Rightarrow> ip4 ! 0 = 169 \<and> ip4 ! 1 = 254
      | None \<Rightarrow> length ip = 16 \<and> ip ! 0 = 0xfe \<and> (ip ! 1) AND 0xc0 = 0x80)"

definition IP_IsLinkLocalMulticast :: "IP \<Rightarrow> bool" where
  "IP_IsLinkLocalMulticast ip =
     (case IP_To4 ip of
        Some ip4 \<Rightarrow> ip4 ! 0 = 224 \<and> ip4 ! 1 = 0 \<and> ip4 ! 2 = 0
      | None \<Rightarrow> length ip = 16 \<and> ip ! 0 = 0xff \<and> (ip ! 1) AND 0x0f = 0x02)"

definition IP_IsPrivate :: "IP \<Rightarrow> bool" where
  "IP_IsPrivate ip =
     (case IP_To4 ip of
        Some ip4 \<Rightarrow>
          ip4 ! 0 = 10 \<or> (ip4 ! 0 = 172 \<and> (ip4 ! 1) AND 0xf0 = 16) \<or>
          (ip4 ! 0 = 192 \<and> ip4 ! 1 = 168)
      | None \<Rightarrow> length ip = 16 \<and> (ip ! 0) AND 0xfe = 0xfc)"

text \<open>\<^verbatim>\<open>net.CIDRMask(ones, bits)\<close>: \<open>l\<close> bytes whose first \<open>n\<close> bits are set.\<close>

fun CIDRMask_loop :: "nat \<Rightarrow> nat \<Rightarrow> IPMask" where
  "CIDRMask_loop 0 n = []"
| "CIDRMask_loop (Suc l) n =
     (if 8 \<le> n then 0xff # CIDRMask_loop l (n - 8)
      else NOT (drop_bit n 0xff) # CIDRMask_loop l 0)"

definition net_CIDRMask :: "nat \<Rightarrow> nat \<Rightarrow> IPMask" where
  "net_CIDRMask ones bits =
     (if bits \<noteq> 32 \<and> bits \<noteq> 128 then []
      else if bits < ones then []
      else CIDRMask_loop (bits div 8) ones)"

text \<open>
  \<^verbatim>\<open>net.ParseCIDR\<close> returns the network of a prefix in CIDR notation: the address
  masked to the prefix length, and the mask. The plugin applies it to eight literals
  only; the table gives the address bytes and the prefix length of each, and any other
  text is reported as an invalid CIDR address (the table does not parse).
\<close>

definition cidr_network :: "IP \<Rightarrow> nat \<Rightarrow> string + IPNet" where
  "cidr_network ip ones =
     (let m = net_CIDRMask ones (8 * length ip)
      in Inr \<lparr>IP = map2 (\<lambda>b mb. b AND mb) ip m, Mask = m\<rparr>)"

definition net_ParseCIDR :: "string \<Rightarrow> string + IPNet" where
  "net_ParseCIDR s =
     (if s = ''10.0.0.0/8'' then cidr_network [10, 0, 0, 0] 8
      else if s = ''172.16.0.0/12'' then cidr_network [172, 16, 0, 0] 12
      else if s = ''192.168.0.0/16'' then cidr_network [192, 168, 0, 0] 16
      else if s = ''127.0.0.0/8'' then cidr_network [127, 0, 0, 0] 8
      else if s = ''169.254.0.0/16'' then cidr_network [169, 254, 0, 0] 16
      else if s = ''0.0.0.0/8'' then cidr_network [0, 0, 0, 0] 8
      else if s = ''169.254.169.254/32'' then cidr_network [169, 254, 169, 254] 32
      else if s = ''fd00:ec2::254/128'' then
        cidr_network [0xfd, 0x00, 0x0e, 0xc2, 0, 0, 0, 0, 0, 0, 0, 0, 0, 0, 0x02, 0x54] 128
      else Inl (''invalid CIDR address: '' @ s))"

text \<open>\<^verbatim>\<open>networkNumberAndMask\<close>; the pair of \<^verbatim>\<open>nil\<close>s is the pair of empty slices.\<close>

definition networkNumberAndMask :: "IPNet \<Rightarrow> IP \<times> IPMask" where
  "networkNumberAndMask n =
     (case (case IP_To4 (IP n) of
              Some ip4 \<Rightarrow> Some ip4
            | None \<Rightarrow> if length (IP n) \<noteq> 16 then None else Some (IP n)) of
        None \<Rightarrow> ([], [])
      | Some ip \<Rightarrow>
          if length (Mask n) = 4 then
            (if length ip \<noteq> 4 then ([], []) else (ip, Mask n))
          else if length (Mask n) = 16 then
            (if length ip = 4 then (ip, drop 12 (Mask n)) else (ip, Mask n))
          else ([], []))"

text \<open>The loop of \<^verbatim>\<open>(*IPNet).Contains\<close> over the bytes of an address as long as the
  network number.\<close>

fun Contains_loop :: "IP \<Rightarrow> IPMask \<Rightarrow> IP \<Rightarrow> bool" where
  "Contains_loop (n # nn) (m # ms) (x # xs) =
     (if n AND m \<noteq> x AND m then False else Contains_loop nn ms xs)"
| "Contains_loop nn ms xs = True"

definition IPNet_Contains :: "IPNet \<Rightarrow> IP \<Rightarrow> bool" where
  "IPNet_Contains n ip =
     (let (nn, m) = networkNumberAndMask n;
          ip' = (case IP_To4 ip of Some x \<Rightarrow> x | None \<Rightarrow> ip)
      in if length ip' \<noteq> length nn then False else Contains_loop nn m ip')"

subsection \<open>isPrivateIP\<close>

definition privateRanges :: "string list" where
  "privateRanges =
     [''10.0.0.0/8'', ''172.16.0.0/12'', ''192.168.0.0/16'', ''127.0.0.0/8'',
      ''169.254.0.0/16'', ''0.0.0.0/8'']"

definition cloudMetadata :: "string list" where
  "cloudMetadata = [''169.254.169.254/32'', ''fd00:ec2::254/128'']"

text \<open>The loop over \<^verbatim>\<open>allRanges\<close>: a range that does not parse is skipped, the first
  block that contains the address ends the loop.\<close>

fun inRanges :: "string list \<Rightarrow> IP \<Rightarrow> bool" where
  "inRanges [] ip = False"
| "inRanges (cidr # rest) ip =
     (case net_ParseCIDR cidr of
        Inl err \<Rightarrow> inRanges rest ip
      | Inr block \<Rightarrow> if IPNet_Contains block ip then True else inRanges rest ip)"

definition isPrivateIP :: "IP \<Rightarrow> bool" where
  "isPrivateIP ip =
     (let allRanges = privateRanges @ cloudMetadata
      in if inRanges allRanges ip then True
         else if IP_IsLoopback ip \<or> IP_IsLinkLocalUnicast ip \<or>
                 IP_IsLinkLocalMulticast ip \<or> IP_IsPrivate ip
         then True
         else False)"

subsection \<open>The world outside the plugin\<close>

text \<open>
  What the validator reads of a parsed \<^verbatim>\<open>*url.URL\<close>: its \<^verbatim>\<open>Scheme\<close> field and the
  result of its \<^verbatim>\<open>Hostname()\<close> method.
\<close>

record URL =
  Scheme :: string
  Hostname :: string

text \<open>
  A lifecycle hook of the plugin SDK is a string (\<^verbatim>\<open>%s\<close> prints it as it is). A value
  of Go's \<^verbatim>\<open>any\<close> in a configuration or output map is a string, a boolean or
  something else.
\<close>

type_synonym Hook = string

datatype any = AnyString string | AnyBool bool | AnyOther

text \<open>
  A \<^verbatim>\<open>CommandExecutor\<close> has one method, \<^verbatim>\<open>Run(ctx, name, args...)\<close>, which returns the
  combined output and an error.
\<close>

type_synonym CommandExecutor = "string \<Rightarrow> string list \<Rightarrow> string \<times> string option"

text \<open>
  The environment is everything the plugin calls and this repository does not define:
  the URL parser, the resolver, the process environment, the execution of a real
  process, and the SDK's constant for the post-publish hook. The theorems hold for
  every environment.
\<close>

record env =
  url_Parse :: "string \<Rightarrow> string + URL"
  net_LookupIP :: "string \<Rightarrow> string + IP list"
  os_Getenv :: "string \<Rightarrow> string"
  exec_CombinedOutput :: CommandExecutor
  HookPostPublish :: Hook

text \<open>
  The effects of a call are recorded in the order they happen: the host names
  handed to the resolver, and the calls of the executor's \<^verbatim>\<open>Run\<close> with the command
  name and its arguments.
\<close>

record world =
  Lookups :: "string list"
  RunCalls :: "(string \<times> string list) list"

subsection \<open>validateRepositoryURL\<close>

text \<open>The loop over the resolved addresses.\<close>

fun checkResolved :: "IP list \<Rightarrow> string option" where
  "checkResolved [] = None"
| "checkResolved (ip # ips) =
     (if isPrivateIP ip then Some ''URLs pointing to private networks are not allowed''
      else checkResolved ips)"

definition validateRepositoryURL :: "env \<Rightarrow> string \<Rightarrow> world \<Rightarrow> string option \<times> world" where
  "validateRepositoryURL E rawURL w =
     (if rawURL = [] then (Some ''repository URL cannot be empty'', w)
      else
        case url_Parse E rawURL of
          Inl err \<Rightarrow> (Some (''invalid URL: '' @ err), w)
        | Inr parsedURL \<Rightarrow>
            let host = Hostname parsedURL;
                isLocalhost = (host = ''localhost'' \<or> host = ''127.0.0.1'' \<or> host = ''::1'')
            in if Scheme parsedURL \<noteq> ''https'' \<and> \<not> isLocalhost then
                 (Some (''only HTTPS URLs are allowed (got '' @ Scheme parsedURL @ '')''), w)
               else if Scheme parsedURL \<noteq> ''http'' \<and> Scheme parsedURL \<noteq> ''https'' then
                 (Some (''only HTTP(S) URLs are allowed (got '' @ Scheme parsedURL @ '')''), w)
               else if isLocalhost then (None, w)
               else
                 let w' = w\<lparr>Lookups := Lookups w @ [host]\<rparr>
                 in case net_LookupIP E host of
                      Inl err \<Rightarrow> (Some (''failed to resolve hostname: '' @ err), w')
                    | Inr ips \<Rightarrow> (checkResolved ips, w'))"

subsection \<open>The plugin\<close>

record Config =
  Username :: string
  Password :: string
  Repository :: string
  DistPath :: string
  SkipExisting :: bool

record PyPIPlugin =
  cmdExecutor :: "CommandExecutor option"

record ReleaseContext =
  Version :: string

record ExecuteRequest =
  Hook :: Hook
  Config :: "string \<rightharpoonup> any"
  Context :: ReleaseContext
  DryRun :: bool

record ExecuteResponse =
  Success :: bool
  Message :: string
  Error :: string
  Outputs :: "string \<rightharpoonup> any"

text \<open>The response and the Go error that \<^verbatim>\<open>Execute\<close> and \<^verbatim>\<open>uploadPackage\<close> return.\<close>

type_synonym outcome = "ExecuteResponse \<times> string option"

definition getExecutor :: "env \<Rightarrow> PyPIPlugin \<Rightarrow> CommandExecutor" where
  "getExecutor E p =
     (case cmdExecutor p of
        Some executor \<Rightarrow> executor
      | None \<Rightarrow> exec_CombinedOutput E)"

definition buildTwineArgs :: "Config \<Rightarrow> string list" where
  "buildTwineArgs cfg =
     (let args = [''upload''];
          args = args @ [''--repository-url'', Repository cfg];
          args = args @ [''-u'', Username cfg];
          args = args @ [''-p'', Password cfg];
          args = (if SkipExisting cfg then args @ [''--skip-existing''] else args);
          args = args @ [DistPath cfg]
      in args)"

definition validateConfig :: "env \<Rightarrow> Config \<Rightarrow> world \<Rightarrow> string option \<times> world" where
  "validateConfig E cfg w =
     (case validateRepositoryURL E (Repository cfg) w of
        (Some err, w') \<Rightarrow> (Some (''invalid repository URL: '' @ err), w')
      | (None, w') \<Rightarrow>
          (case validateDistPath (DistPath cfg) of
             Some err \<Rightarrow> (Some (''invalid dist path: '' @ err), w')
           | None \<Rightarrow>
               if Username cfg = [] then (Some ''username is required'', w')
               else if Password cfg = [] then (Some ''password is required'', w')
               else (None, w')))"

definition uploadPackage ::
  "env \<Rightarrow> PyPIPlugin \<Rightarrow> Config \<Rightarrow> ReleaseContext \<Rightarrow> bool \<Rightarrow> world \<Rightarrow> outcome \<times> world" where
  "uploadPackage E p cfg releaseCtx dryRun w =
     (case validateConfig E cfg w of
        (Some err, w') \<Rightarrow>
          ((\<lparr>Success = False, Message = [],
             Error = ''configuration validation failed: '' @ err,
             Outputs = Map.empty\<rparr>, None), w')
      | (None, w') \<Rightarrow>
          let version = strings_TrimPrefix (Version releaseCtx) ''v''
          in if dryRun then
               ((\<lparr>Success = True,
                  Message = ''Would upload package to '' @ Repository cfg,
                  Error = [],
                  Outputs = [''repository'' \<mapsto> AnyString (Repository cfg),
                             ''dist_path'' \<mapsto> AnyString (DistPath cfg),
                             ''skip_existing'' \<mapsto> AnyBool (SkipExisting cfg),
                             ''version'' \<mapsto> AnyString version]\<rparr>, None), w')
             else
               let args = buildTwineArgs cfg;
                   executor = getExecutor E p;
                   (output, err) = executor ''twine'' args;
                   w'' = w'\<lparr>RunCalls := RunCalls w' @ [(''twine'', args)]\<rparr>
               in case err of
                    Some e \<Rightarrow>
                      ((\<lparr>Success = False, Message = [],
                         Error = ''twine upload failed: '' @ e @ [CHR 0x0A] @ ''Output: '' @ output,
                         Outputs = Map.empty\<rparr>, None), w'')
                  | None \<Rightarrow>
                      ((\<lparr>Success = True,
                         Message = ''Successfully uploaded package to '' @ Repository cfg,
                         Error = [],
                         Outputs = [''repository'' \<mapsto> AnyString (Repository cfg),
                                    ''dist_path'' \<mapsto> AnyString (DistPath cfg),
                                    ''version'' \<mapsto> AnyString version,
                                    ''output'' \<mapsto> AnyString output]\<rparr>, None), w''))"

text \<open>
  \<^verbatim>\<open>parseConfig\<close>: the type assertion \<^verbatim>\<open>raw[k].(string)\<close> succeeds when the key is
  present with a string value.
\<close>

definition parseConfig :: "env \<Rightarrow> (string \<rightharpoonup> any) \<Rightarrow> Config" where
  "parseConfig E raw =
     (let cfg = \<lparr>Username = [], Password = [],
                 Repository = ''https://upload.pypi.org/legacy/'',
                 DistPath = ''dist/*'', SkipExisting = False\<rparr>;
          cfg = (case raw ''username'' of
                   Some (AnyString v) \<Rightarrow>
                     if v \<noteq> [] then cfg\<lparr>Username := v\<rparr>
                     else if os_Getenv E ''PYPI_USERNAME'' \<noteq> []
                     then cfg\<lparr>Username := os_Getenv E ''PYPI_USERNAME''\<rparr> else cfg
                 | _ \<Rightarrow>
                     if os_Getenv E ''PYPI_USERNAME'' \<noteq> []
                     then cfg\<lparr>Username := os_Getenv E ''PYPI_USERNAME''\<rparr> else cfg);
          cfg = (case raw ''password'' of
                   Some (AnyString v) \<Rightarrow>
                     if v \<noteq> [] then cfg\<lparr>Password := v\<rparr>
                     else if os_Getenv E ''PYPI_PASSWORD'' \<noteq> []
                     then cfg\<lparr>Password := os_Getenv E ''PYPI_PASSWORD''\<rparr> else cfg
                 | _ \<Rightarrow>
                     if os_Getenv E ''PYPI_PASSWORD'' \<noteq> []
                     then cfg\<lparr>Password := os_Getenv E ''PYPI_PASSWORD''\<rparr> else cfg);
          cfg = (case raw ''repository'' of
                   Some (AnyString v) \<Rightarrow> if v \<noteq> [] then cfg\<lparr>Repository := v\<rparr> else cfg
                 | _ \<Rightarrow> cfg);
          cfg = (case raw ''dist_path'' of
                   Some (AnyString v) \<Rightarrow> if v \<noteq> [] then cfg\<lparr>DistPath := v\<rparr> else cfg
                 | _ \<Rightarrow> cfg);
          cfg = (case raw ''skip_existing'' of
                   Some (AnyBool v) \<Rightarrow> cfg\<lparr>SkipExisting := v\<rparr>
                 | _ \<Rightarrow> cfg)
      in cfg)"

definition Execute :: "env \<Rightarrow> PyPIPlugin \<Rightarrow> ExecuteRequest \<Rightarrow> world \<Rightarrow> outcome \<times> world" where
  "Execute E p req w =
     (let cfg = parseConfig E (Config req)
      in if Hook req = HookPostPublish E then
           uploadPackage E p cfg (Context req) (DryRun req) w
         else
           ((\<lparr>Success = True,
              Message = ''Hook '' @ Hook req @ '' not handled'',
              Error = [],
              Outputs = Map.empty\<rparr>, None), w))"

subsection \<open>Notions that the properties are stated with\<close>

text \<open>The cleaned path with every \<^verbatim>\<open>*\<close> removed, on which the traversal check looks.\<close>

abbreviation globStripped :: "string \<Rightarrow> string" where
  "globStripped path \<equiv> strings_ReplaceAll (filepath_Clean path) (CHR ''*'') []"

text \<open>
  Membership of an address in an IPv4 block \<^verbatim>\<open>a.b.c.d/n\<close>, stated with numbers and
  independently of the classifier: the address is an IPv4 address, in its 4-byte form
  or in its IPv4-mapped 16-byte form, and its 32-bit number agrees with the number of
  \<^verbatim>\<open>a.b.c.d\<close> on the first \<open>n\<close> bits.
\<close>

definition be_number :: "byte list \<Rightarrow> nat" where
  "be_number bs = foldl (\<lambda>n b. 256 * n + unat b) 0 bs"

definition ipv4_number :: "IP \<Rightarrow> nat option" where
  "ipv4_number ip =
     (if length ip = 4 then Some (be_number ip)
      else if length ip = 16 \<and> take 12 ip = v4InV6Prefix then Some (be_number (drop 12 ip))
      else None)"

definition in_ipv4_block :: "byte list \<Rightarrow> nat \<Rightarrow> IP \<Rightarrow> bool" where
  "in_ipv4_block net n ip =
     (case ipv4_number ip of
        None \<Rightarrow> False
      | Some v \<Rightarrow> v div 2 ^ (32 - n) = be_number net div 2 ^ (32 - n))"

text \<open>The IPv6 address \<^verbatim>\<open>fd00:ec2::254\<close> of the metadata service.\<close>

definition metadataIPv6 :: IP where
  "metadataIPv6 = [0xfd, 0x00, 0x0e, 0xc2, 0, 0, 0, 0, 0, 0, 0, 0, 0, 0, 0x02, 0x54]"

subsection \<open>An environment for the examples\<close>

text \<open>
  The examples run in an environment that gives, for a handful of URLs, the scheme and
  the host name that Go's parser finds in them (every other text counts as
  unparseable here), a resolver that knows three names, an empty process environment
  and a real executor whose process fails. The plugin of the examples has an executor
  of its own, as the repository's tests have.
\<close>

definition example_urls :: "(string \<times> URL) list" where
  "example_urls =
     [(''https://upload.pypi.org/legacy/'', \<lparr>Scheme = ''https'', Hostname = ''upload.pypi.org''\<rparr>),
      (''http://localhost:8080/simple/'', \<lparr>Scheme = ''http'', Hostname = ''localhost''\<rparr>),
      (''http://127.0.0.1:9000/'', \<lparr>Scheme = ''http'', Hostname = ''127.0.0.1''\<rparr>),
      (''https://[::1]:8443/legacy/'', \<lparr>Scheme = ''https'', Hostname = ''::1''\<rparr>),
      (''http://pypi.example.com/'', \<lparr>Scheme = ''http'', Hostname = ''pypi.example.com''\<rparr>),
      (''ftp://pypi.org/'', \<lparr>Scheme = ''ftp'', Hostname = ''pypi.org''\<rparr>),
      (''ftp://localhost/'', \<lparr>Scheme = ''ftp'', Hostname = ''localhost''\<rparr>),
      (''https://mixed.example.com/'', \<lparr>Scheme = ''https'', Hostname = ''mixed.example.com''\<rparr>),
      (''https://nowhere.example.com/'', \<lparr>Scheme = ''https'', Hostname = ''nowhere.example.com''\<rparr>)]"

definition example_hosts :: "(string \<times> IP list) list" where
  "example_hosts =
     [(''upload.pypi.org'', [[151, 101, 0, 223], [151, 101, 64, 223]]),
      (''pypi.org'', [[151, 101, 0, 223]]),
      (''mixed.example.com'', [[93, 184, 216, 34], [10, 0, 0, 5]])]"

definition example_env :: env where
  "example_env =
     \<lparr>url_Parse = (\<lambda>s. case map_of example_urls s of
                          Some u \<Rightarrow> Inr u
                        | None \<Rightarrow> Inl ''parse error''),
      net_LookupIP = (\<lambda>h. case map_of example_hosts h of
                             Some ips \<Rightarrow> Inr ips
                           | None \<Rightarrow> Inl (''lookup '' @ h @ '': no such host'')),
      os_Getenv = (\<lambda>k. []),
      exec_CombinedOutput = (\<lambda>name args. ([], Some ''executable file not found'')),
      HookPostPublish = ''post-publish''\<rparr>"

definition example_plugin :: PyPIPlugin where
  "example_plugin = \<lparr>cmdExecutor = Some (\<lambda>name args. (''Uploading distributions'', None))\<rparr>"

definition failing_plugin :: PyPIPlugin where
  "failing_plugin =
     \<lparr>cmdExecutor = Some (\<lambda>name args. (''HTTPError: 400'', Some ''exit status 1''))\<rparr>"

definition example_config :: Config where
  "example_config =
     \<lparr>Username = ''u'', Password = ''p'', Repository = ''https://upload.pypi.org/legacy/'',
      DistPath = ''dist/*'', SkipExisting = False\<rparr>"

definition traversal_config :: Config where
  "traversal_config = example_config\<lparr>DistPath := ''../../etc/passwd''\<rparr>"

definition example_request :: ExecuteRequest where
  "example_request =
     \<lparr>Hook = ''pre-init'',
      Config = [''username'' \<mapsto> AnyString ''testuser'', ''password'' \<mapsto> AnyString ''testpass''],
      Context = \<lparr>Version = ''v1.0.0''\<rparr>, DryRun = True\<rparr>"

definition world0 :: world where
  "world0 = \<lparr>Lookups = [], RunCalls = []\<rparr>"

section \<open>The command builder\<close>

text \<open>
  C2. For every configuration, \<open>buildTwineArgs\<close> returns the arguments
  \<open>upload\<close>, \<open>--repository-url\<close>, the endpoint, \<open>-u\<close>, the principal, \<open>-p\<close>, the
  secret and the path pattern, in this order, with \<open>--skip-existing\<close> between the
  secret and the path pattern exactly when the skip flag is set: the builder adds
  no other argument.
\<close>

theorem buildTwineArgs_shape:
  "buildTwineArgs cfg =
     [''upload'', ''--repository-url'', Repository cfg, ''-u'', Username cfg,
      ''-p'', Password cfg]
     @ (if SkipExisting cfg then [''--skip-existing''] else [])
     @ [DistPath cfg]"
  by (simp add: buildTwineArgs_def)

theorem buildTwineArgs_shape_witness:
  "buildTwineArgs (example_config\<lparr>SkipExisting := True\<rparr>) =
     [''upload'', ''--repository-url'', ''https://upload.pypi.org/legacy/'', ''-u'', ''u'',
      ''-p'', ''p'', ''--skip-existing'', ''dist/*'']
   \<and> buildTwineArgs example_config =
     [''upload'', ''--repository-url'', ''https://upload.pypi.org/legacy/'', ''-u'', ''u'',
      ''-p'', ''p'', ''dist/*'']"
  using buildTwineArgs_shape [of "example_config\<lparr>SkipExisting := True\<rparr>"]
        buildTwineArgs_shape [of example_config]
  by (simp add: example_config_def)

section \<open>Hooks that the plugin does not handle\<close>

text \<open>
  C10. For every hook other than the post-publish hook, every raw configuration,
  both values of the dry-run flag and every executor, \<open>Execute\<close> returns a successful
  response whose message is \<open>Hook\<close>, the hook and \<open>not handled\<close>, with no Go error.
  The world is unchanged: no host name was resolved (the validator did not run) and
  the executor was not called.
\<close>

theorem Execute_unhandled_hook:
  assumes "Hook req \<noteq> HookPostPublish E"
  shows "Execute E p req w =
           ((\<lparr>Success = True, Message = ''Hook '' @ Hook req @ '' not handled'',
              Error = [], Outputs = Map.empty\<rparr>, None), w)"
  using assms by (simp add: Execute_def)

theorem Execute_unhandled_hook_witness:
  "Hook example_request \<noteq> HookPostPublish example_env
   \<and> Execute example_env example_plugin example_request world0 =
      ((\<lparr>Success = True, Message = ''Hook pre-init not handled'',
         Error = [], Outputs = Map.empty\<rparr>, None), world0)
   \<and> Execute example_env example_plugin (example_request\<lparr>DryRun := False\<rparr>) world0 =
      ((\<lparr>Success = True, Message = ''Hook pre-init not handled'',
         Error = [], Outputs = Map.empty\<rparr>, None), world0)"
proof -
  have h: "Hook example_request \<noteq> HookPostPublish example_env"
    by (simp add: example_request_def example_env_def)
  then have h': "Hook (example_request\<lparr>DryRun := False\<rparr>) \<noteq> HookPostPublish example_env"
    by simp
  from Execute_unhandled_hook [OF h, of example_plugin world0]
       Execute_unhandled_hook [OF h', of example_plugin world0] h
  show ?thesis by (simp add: example_request_def)
qed

section \<open>The URL validator\<close>

lemma validateRepositoryURL_empty:
  "validateRepositoryURL E [] w = (Some ''repository URL cannot be empty'', w)"
  by (simp add: validateRepositoryURL_def)

lemma checkResolved_private:
  "\<exists>ip\<in>set ips. isPrivateIP ip \<Longrightarrow>
   checkResolved ips = Some ''URLs pointing to private networks are not allowed''"
  by (induction ips) auto

lemma checkResolved_public:
  "\<forall>ip\<in>set ips. \<not> isPrivateIP ip \<Longrightarrow> checkResolved ips = None"
  by (induction ips) auto

text \<open>The validator accepts an HTTPS URL whose host resolves to addresses that the
  classifier lets pass; it has resolved the host name once.\<close>

lemma validateRepositoryURL_public:
  assumes "rawURL \<noteq> []"
      and "url_Parse E rawURL = Inr u"
      and "Scheme u = ''https''"
      and "Hostname u \<notin> {''localhost'', ''127.0.0.1'', ''::1''}"
      and "net_LookupIP E (Hostname u) = Inr ips"
      and "\<forall>ip\<in>set ips. \<not> isPrivateIP ip"
  shows "validateRepositoryURL E rawURL w = (None, w\<lparr>Lookups := Lookups w @ [Hostname u]\<rparr>)"
  using assms by (auto simp add: validateRepositoryURL_def Let_def checkResolved_public)

lemma example_parse:
  "url_Parse example_env ''http://pypi.example.com/'' =
     Inr \<lparr>Scheme = ''http'', Hostname = ''pypi.example.com''\<rparr>"
  "url_Parse example_env ''ftp://pypi.org/'' = Inr \<lparr>Scheme = ''ftp'', Hostname = ''pypi.org''\<rparr>"
  "url_Parse example_env ''ftp://localhost/'' = Inr \<lparr>Scheme = ''ftp'', Hostname = ''localhost''\<rparr>"
  "url_Parse example_env ''http://localhost:8080/simple/'' =
     Inr \<lparr>Scheme = ''http'', Hostname = ''localhost''\<rparr>"
  "url_Parse example_env ''http://127.0.0.1:9000/'' =
     Inr \<lparr>Scheme = ''http'', Hostname = ''127.0.0.1''\<rparr>"
  "url_Parse example_env ''https://[::1]:8443/legacy/'' =
     Inr \<lparr>Scheme = ''https'', Hostname = ''::1''\<rparr>"
  "url_Parse example_env ''https://mixed.example.com/'' =
     Inr \<lparr>Scheme = ''https'', Hostname = ''mixed.example.com''\<rparr>"
  "url_Parse example_env ''https://nowhere.example.com/'' =
     Inr \<lparr>Scheme = ''https'', Hostname = ''nowhere.example.com''\<rparr>"
  by (simp_all add: example_env_def example_urls_def)

lemma example_lookup:
  "net_LookupIP example_env ''mixed.example.com'' = Inr [[93, 184, 216, 34], [10, 0, 0, 5]]"
  "net_LookupIP example_env ''nowhere.example.com'' =
     Inl ''lookup nowhere.example.com: no such host''"
  by (simp_all add: example_env_def example_hosts_def)

text \<open>
  C4. Take a URL text that is not empty (the parser gives the empty text an empty
  scheme, and the validator rejects it before parsing, see
  \<open>validateRepositoryURL_empty\<close>) and that parses. If its scheme is \<open>http\<close> and
  its host name is none of \<open>localhost\<close>, \<open>127.0.0.1\<close> and \<open>::1\<close>, the validator
  rejects it with the violation that only HTTPS URLs are allowed. If its scheme is
  neither \<open>http\<close> nor \<open>https\<close>, the validator rejects it whatever the host name:
  with the HTTP(S) violation for the three local names, with the HTTPS violation
  otherwise. No name is resolved in either case.
\<close>

theorem validateRepositoryURL_https_required:
  assumes "rawURL \<noteq> []" and "url_Parse E rawURL = Inr u"
  shows "(Scheme u = ''http'' \<and> Hostname u \<notin> {''localhost'', ''127.0.0.1'', ''::1''}
            \<longrightarrow> validateRepositoryURL E rawURL w =
                  (Some ''only HTTPS URLs are allowed (got http)'', w))
       \<and> (Scheme u \<noteq> ''http'' \<and> Scheme u \<noteq> ''https''
            \<longrightarrow> validateRepositoryURL E rawURL w =
                  (Some ((if Hostname u \<in> {''localhost'', ''127.0.0.1'', ''::1''}
                          then ''only HTTP(S) URLs are allowed (got ''
                          else ''only HTTPS URLs are allowed (got '') @ Scheme u @ '')''), w))"
  using assms by (simp add: validateRepositoryURL_def Let_def)

theorem validateRepositoryURL_https_required_witness:
  "validateRepositoryURL example_env ''http://pypi.example.com/'' world0 =
     (Some ''only HTTPS URLs are allowed (got http)'', world0)
   \<and> validateRepositoryURL example_env ''ftp://pypi.org/'' world0 =
     (Some ''only HTTPS URLs are allowed (got ftp)'', world0)
   \<and> validateRepositoryURL example_env ''ftp://localhost/'' world0 =
     (Some ''only HTTP(S) URLs are allowed (got ftp)'', world0)"
  using validateRepositoryURL_https_required [OF _ example_parse(1), of world0]
        validateRepositoryURL_https_required [OF _ example_parse(2), of world0]
        validateRepositoryURL_https_required [OF _ example_parse(3), of world0]
  by simp

text \<open>
  C5. Take a URL text that is not empty and parses with the scheme \<open>http\<close> or
  \<open>https\<close> and with the host name \<open>localhost\<close>, \<open>127.0.0.1\<close> or \<open>::1\<close>; the
  port and the path are the parser's business and do not matter. Whatever the
  resolver of the environment is, the validator accepts the URL and leaves the world
  as it was: it resolved no name.
\<close>

theorem validateRepositoryURL_localhost:
  assumes "rawURL \<noteq> []"
      and "url_Parse E rawURL = Inr u"
      and "Scheme u = ''http'' \<or> Scheme u = ''https''"
      and "Hostname u = ''localhost'' \<or> Hostname u = ''127.0.0.1'' \<or> Hostname u = ''::1''"
  shows "validateRepositoryURL (E\<lparr>net_LookupIP := resolve\<rparr>) rawURL w = (None, w)"
  using assms by (auto simp add: validateRepositoryURL_def Let_def)

theorem validateRepositoryURL_localhost_witness:
  "validateRepositoryURL (example_env\<lparr>net_LookupIP := \<lambda>h. Inr [[10, 0, 0, 1]]\<rparr>)
     ''http://localhost:8080/simple/'' world0 = (None, world0)
   \<and> validateRepositoryURL (example_env\<lparr>net_LookupIP := \<lambda>h. Inl ''no such host''\<rparr>)
     ''http://127.0.0.1:9000/'' world0 = (None, world0)
   \<and> validateRepositoryURL (example_env\<lparr>net_LookupIP := \<lambda>h. Inr [[169, 254, 169, 254]]\<rparr>)
     ''https://[::1]:8443/legacy/'' world0 = (None, world0)"
  using validateRepositoryURL_localhost
          [OF _ example_parse(4), of "\<lambda>h. Inr [[10, 0, 0, 1]]" world0]
        validateRepositoryURL_localhost
          [OF _ example_parse(5), of "\<lambda>h. Inl ''no such host''" world0]
        validateRepositoryURL_localhost
          [OF _ example_parse(6), of "\<lambda>h. Inr [[169, 254, 169, 254]]" world0]
  by simp

text \<open>
  C7. Take a URL text that is not empty and parses with the scheme \<open>https\<close> and a
  host name other than \<open>localhost\<close>, \<open>127.0.0.1\<close> and \<open>::1\<close>. If the resolver
  returns addresses for the host name and the classifier holds of at least one of
  them, the validator rejects the URL as pointing to a private network, whatever the
  other addresses are. If the resolver fails, the validator rejects the URL with the
  resolver's error.
\<close>

theorem validateRepositoryURL_resolved:
  assumes "rawURL \<noteq> []"
      and "url_Parse E rawURL = Inr u"
      and "Scheme u = ''https''"
      and "Hostname u \<notin> {''localhost'', ''127.0.0.1'', ''::1''}"
  shows "(\<forall>ips. net_LookupIP E (Hostname u) = Inr ips \<and> (\<exists>ip\<in>set ips. isPrivateIP ip)
            \<longrightarrow> fst (validateRepositoryURL E rawURL w) =
                  Some ''URLs pointing to private networks are not allowed'')
       \<and> (\<forall>err. net_LookupIP E (Hostname u) = Inl err
            \<longrightarrow> fst (validateRepositoryURL E rawURL w) =
                  Some (''failed to resolve hostname: '' @ err))"
  using assms by (auto simp add: validateRepositoryURL_def Let_def checkResolved_private)

theorem validateRepositoryURL_resolved_witness:
  "\<not> isPrivateIP [93, 184, 216, 34] \<and> isPrivateIP [10, 0, 0, 5]
   \<and> fst (validateRepositoryURL example_env ''https://mixed.example.com/'' world0) =
       Some ''URLs pointing to private networks are not allowed''
   \<and> fst (validateRepositoryURL example_env ''https://nowhere.example.com/'' world0) =
       Some ''failed to resolve hostname: lookup nowhere.example.com: no such host''"
proof -
  have pub: "\<not> isPrivateIP [93, 184, 216, 34]" by code_simp
  have priv: "isPrivateIP [10, 0, 0, 5]" by code_simp
  from validateRepositoryURL_resolved [OF _ example_parse(7), of world0]
  have "fst (validateRepositoryURL example_env ''https://mixed.example.com/'' world0) =
          Some ''URLs pointing to private networks are not allowed''"
    using priv by (simp add: example_lookup)
  moreover
  from validateRepositoryURL_resolved [OF _ example_parse(8), of world0]
  have "fst (validateRepositoryURL example_env ''https://nowhere.example.com/'' world0) =
          Some ''failed to resolve hostname: lookup nowhere.example.com: no such host''"
    by (simp add: example_lookup)
  ultimately show ?thesis using pub priv by simp
qed

section \<open>The orchestrator\<close>

lemma validateRepositoryURL_RunCalls:
  "RunCalls (snd (validateRepositoryURL E rawURL w)) = RunCalls w"
  by (simp add: validateRepositoryURL_def Let_def split: sum.split)

lemma validateConfig_RunCalls:
  "RunCalls (snd (validateConfig E cfg w)) = RunCalls w"
proof -
  obtain r w' where v: "validateRepositoryURL E (Repository cfg) w = (r, w')"
    by (cases "validateRepositoryURL E (Repository cfg) w")
  with validateRepositoryURL_RunCalls [of E "Repository cfg" w]
  have "RunCalls w' = RunCalls w" by simp
  with v show ?thesis
    by (simp add: validateConfig_def split: option.split)
qed

lemma validateConfig_message:
  assumes "Username cfg = [] \<or> Password cfg = [] \<or>
           fst (validateRepositoryURL E (Repository cfg) w) \<noteq> None \<or>
           validateDistPath (DistPath cfg) \<noteq> None"
  shows "\<exists>msg. fst (validateConfig E cfg w) = Some msg \<and>
           (strings_HasPrefix msg ''invalid repository URL: '' \<or>
            strings_HasPrefix msg ''invalid dist path: '' \<or>
            msg = ''username is required'' \<or> msg = ''password is required'')"
proof -
  obtain r w' where v: "validateRepositoryURL E (Repository cfg) w = (r, w')"
    by (cases "validateRepositoryURL E (Repository cfg) w")
  show ?thesis
    using assms v
    by (auto simp add: validateConfig_def strings_HasPrefix_def split: option.split)
qed

lemma uploadPackage_rejects:
  assumes "fst (validateConfig E cfg w) = Some msg"
  shows "uploadPackage E p cfg releaseCtx dryRun w =
           ((\<lparr>Success = False, Message = [],
              Error = ''configuration validation failed: '' @ msg,
              Outputs = Map.empty\<rparr>, None), snd (validateConfig E cfg w))"
  using assms by (cases "validateConfig E cfg w") (simp add: uploadPackage_def)

lemma TrimPrefix_v: "strings_TrimPrefix (CHR ''v'' # rest) ''v'' = rest"
  by (simp add: strings_TrimPrefix_def strings_HasPrefix_def)

lemma example_config_valid:
  "validateConfig example_env example_config world0 =
     (None, \<lparr>Lookups = [''upload.pypi.org''], RunCalls = []\<rparr>)"
  by code_simp

text \<open>
  C1. If the user name is missing, the password is missing, the URL validator rejects
  the repository or the path validator rejects the dist path, then for both values
  of the dry-run flag and for every executor \<open>uploadPackage\<close> returns a response with
  \<open>Success = False\<close> whose error is \<open>configuration validation failed:\<close> followed by
  the violation (of the repository URL, of the dist path, or the missing
  credential), it returns no Go error, and the calls of the executor are the ones
  made before.
\<close>

theorem uploadPackage_invalid_config:
  assumes "Username cfg = [] \<or> Password cfg = [] \<or>
           fst (validateRepositoryURL E (Repository cfg) w) \<noteq> None \<or>
           validateDistPath (DistPath cfg) \<noteq> None"
  shows "\<exists>msg.
           (strings_HasPrefix msg ''invalid repository URL: '' \<or>
            strings_HasPrefix msg ''invalid dist path: '' \<or>
            msg = ''username is required'' \<or> msg = ''password is required'') \<and>
           fst (uploadPackage E p cfg releaseCtx dryRun w) =
             (\<lparr>Success = False, Message = [],
               Error = ''configuration validation failed: '' @ msg,
               Outputs = Map.empty\<rparr>, None) \<and>
           RunCalls (snd (uploadPackage E p cfg releaseCtx dryRun w)) = RunCalls w"
proof -
  from validateConfig_message [OF assms] obtain msg where
    m: "fst (validateConfig E cfg w) = Some msg" and
    d: "strings_HasPrefix msg ''invalid repository URL: '' \<or>
        strings_HasPrefix msg ''invalid dist path: '' \<or>
        msg = ''username is required'' \<or> msg = ''password is required''"
    by blast
  from uploadPackage_rejects [OF m] validateConfig_RunCalls [of E cfg w] d
  show ?thesis by auto
qed

text \<open>The scenario of the specification: the path \<open>../../etc/passwd\<close>, a real run
  and a dry run.\<close>

theorem uploadPackage_invalid_config_witness:
  "validateDistPath (DistPath traversal_config) \<noteq> None
   \<and> (\<exists>msg.
        (strings_HasPrefix msg ''invalid repository URL: '' \<or>
         strings_HasPrefix msg ''invalid dist path: '' \<or>
         msg = ''username is required'' \<or> msg = ''password is required'') \<and>
        fst (uploadPackage example_env example_plugin traversal_config
               \<lparr>Version = ''v1.0.0''\<rparr> False world0) =
          (\<lparr>Success = False, Message = [],
            Error = ''configuration validation failed: '' @ msg,
            Outputs = Map.empty\<rparr>, None) \<and>
        RunCalls (snd (uploadPackage example_env example_plugin traversal_config
                         \<lparr>Version = ''v1.0.0''\<rparr> False world0)) = RunCalls world0)
   \<and> (\<exists>msg.
        (strings_HasPrefix msg ''invalid repository URL: '' \<or>
         strings_HasPrefix msg ''invalid dist path: '' \<or>
         msg = ''username is required'' \<or> msg = ''password is required'') \<and>
        fst (uploadPackage example_env example_plugin traversal_config
               \<lparr>Version = ''v1.0.0''\<rparr> True world0) =
          (\<lparr>Success = False, Message = [],
            Error = ''configuration validation failed: '' @ msg,
            Outputs = Map.empty\<rparr>, None) \<and>
        RunCalls (snd (uploadPackage example_env example_plugin traversal_config
                         \<lparr>Version = ''v1.0.0''\<rparr> True world0)) = RunCalls world0)"
proof -
  have h: "validateDistPath (DistPath traversal_config) \<noteq> None"
    by code_simp
  then have hyp:
    "Username traversal_config = [] \<or> Password traversal_config = [] \<or>
     fst (validateRepositoryURL example_env (Repository traversal_config) world0) \<noteq> None \<or>
     validateDistPath (DistPath traversal_config) \<noteq> None"
    by blast
  from uploadPackage_invalid_config
         [OF hyp, of example_plugin "\<lparr>Version = ''v1.0.0''\<rparr>" False]
       uploadPackage_invalid_config
         [OF hyp, of example_plugin "\<lparr>Version = ''v1.0.0''\<rparr>" True]
       h
  show ?thesis by blast
qed

lemma scenario_path_traversal:
  "uploadPackage example_env example_plugin traversal_config \<lparr>Version = ''v1.0.0''\<rparr> False world0 =
     ((\<lparr>Success = False, Message = [],
        Error = ''configuration validation failed: invalid dist path: '' @
                ''path traversal detected: cannot use '..' to escape working directory'',
        Outputs = Map.empty\<rparr>, None),
      \<lparr>Lookups = [''upload.pypi.org''], RunCalls = []\<rparr>)"
proof -
  have "validateConfig example_env traversal_config world0 =
          (Some (''invalid dist path: '' @
                 ''path traversal detected: cannot use '..' to escape working directory''),
           \<lparr>Lookups = [''upload.pypi.org''], RunCalls = []\<rparr>)"
    by code_simp
  then show ?thesis
    using uploadPackage_rejects
            [of example_env traversal_config world0 _ example_plugin
                "\<lparr>Version = ''v1.0.0''\<rparr>" False]
    by simp
qed

text \<open>
  Two more scenarios of the specification, on real runs. An executor that fails with
  the output \<open>HTTPError: 400\<close>: the response carries the error and the output, and
  the executor was called once. An executor that succeeds, with the skip flag set:
  the one call has the arguments of the command builder.
\<close>

lemma scenario_upload_failed:
  "\<not> Success (fst (fst (uploadPackage example_env failing_plugin example_config
                          \<lparr>Version = ''v1.0.0''\<rparr> False world0)))
   \<and> Error (fst (fst (uploadPackage example_env failing_plugin example_config
                         \<lparr>Version = ''v1.0.0''\<rparr> False world0))) =
       ''twine upload failed: exit status 1'' @ [CHR 0x0A] @ ''Output: HTTPError: 400''
   \<and> snd (fst (uploadPackage example_env failing_plugin example_config
                  \<lparr>Version = ''v1.0.0''\<rparr> False world0)) = None
   \<and> snd (uploadPackage example_env failing_plugin example_config
             \<lparr>Version = ''v1.0.0''\<rparr> False world0) =
       \<lparr>Lookups = [''upload.pypi.org''],
        RunCalls = [(''twine'', [''upload'', ''--repository-url'',
                                 ''https://upload.pypi.org/legacy/'', ''-u'', ''u'', ''-p'', ''p'',
                                 ''dist/*''])]\<rparr>"
  by code_simp

lemma scenario_upload_skip_existing:
  "snd (uploadPackage example_env example_plugin (example_config\<lparr>SkipExisting := True\<rparr>)
          \<lparr>Version = ''v1.0.0''\<rparr> False world0) =
     \<lparr>Lookups = [''upload.pypi.org''],
      RunCalls = [(''twine'', [''upload'', ''--repository-url'',
                               ''https://upload.pypi.org/legacy/'', ''-u'', ''u'', ''-p'', ''p'',
                               ''--skip-existing'', ''dist/*''])]\<rparr>
   \<and> Success (fst (fst (uploadPackage example_env example_plugin
                           (example_config\<lparr>SkipExisting := True\<rparr>)
                           \<lparr>Version = ''v1.0.0''\<rparr> False world0)))"
  by code_simp

text \<open>
  C3, as the code has it. If the configuration passes validation and the dry-run flag
  is set, \<open>uploadPackage\<close> returns a response with \<open>Success = True\<close> and no Go error;
  the message is \<open>Would upload package to\<close> followed by the endpoint, so it
  contains \<open>Would\<close> with a capital letter; the outputs carry the endpoint, the path
  pattern, the skip flag and the version without one leading \<open>v\<close>; and the
  executor is not called.
\<close>

theorem uploadPackage_dry_run:
  assumes "fst (validateConfig E cfg w) = None"
  shows "\<exists>r w'. uploadPackage E p cfg releaseCtx True w = ((r, None), w') \<and>
           RunCalls w' = RunCalls w \<and>
           Success r \<and>
           Message r = ''Would upload package to '' @ Repository cfg \<and>
           strings_Contains (Message r) ''Would'' \<and>
           Outputs r ''repository'' = Some (AnyString (Repository cfg)) \<and>
           Outputs r ''dist_path'' = Some (AnyString (DistPath cfg)) \<and>
           Outputs r ''skip_existing'' = Some (AnyBool (SkipExisting cfg)) \<and>
           Outputs r ''version'' =
             Some (AnyString (strings_TrimPrefix (Version releaseCtx) ''v'')) \<and>
           (\<forall>rest. Version releaseCtx = CHR ''v'' # rest \<longrightarrow>
                   Outputs r ''version'' = Some (AnyString rest))"
proof -
  obtain w' where v: "validateConfig E cfg w = (None, w')"
    using assms by (cases "validateConfig E cfg w") simp
  with validateConfig_RunCalls [of E cfg w] have "RunCalls w' = RunCalls w"
    by simp
  with v show ?thesis
    by (simp add: uploadPackage_def Let_def strings_HasPrefix_def TrimPrefix_v)
qed

theorem uploadPackage_dry_run_witness:
  "fst (validateConfig example_env example_config world0) = None
   \<and> (\<exists>r w'. uploadPackage example_env example_plugin example_config
                 \<lparr>Version = ''v1.2.3''\<rparr> True world0 = ((r, None), w') \<and>
        RunCalls w' = [] \<and>
        Success r \<and>
        Message r = ''Would upload package to https://upload.pypi.org/legacy/'' \<and>
        Outputs r ''repository'' = Some (AnyString ''https://upload.pypi.org/legacy/'') \<and>
        Outputs r ''dist_path'' = Some (AnyString ''dist/*'') \<and>
        Outputs r ''skip_existing'' = Some (AnyBool False) \<and>
        Outputs r ''version'' = Some (AnyString ''1.2.3''))"
proof -
  have h: "fst (validateConfig example_env example_config world0) = None"
    by (simp add: example_config_valid)
  from uploadPackage_dry_run [OF h, of example_plugin "\<lparr>Version = ''v1.2.3''\<rparr>"]
  obtain r w' where
    "uploadPackage example_env example_plugin example_config
       \<lparr>Version = ''v1.2.3''\<rparr> True world0 = ((r, None), w')"
    "RunCalls w' = RunCalls world0" "Success r"
    "Message r = ''Would upload package to '' @ Repository example_config"
    "Outputs r ''repository'' = Some (AnyString (Repository example_config))"
    "Outputs r ''dist_path'' = Some (AnyString (DistPath example_config))"
    "Outputs r ''skip_existing'' = Some (AnyBool (SkipExisting example_config))"
    "Outputs r ''version'' = Some (AnyString ''1.2.3'')"
    by auto
  then show ?thesis
    using h by (simp add: example_config_def world0_def)
qed

text \<open>
  C3 as it is stated asks for a message that contains \<open>would\<close>. In the scenario of
  the specification (the default endpoint, version \<open>v1.2.3\<close>) validation passes and
  the message of the dry run is \<open>Would upload package to
  https://upload.pypi.org/legacy/\<close>, which does not contain \<open>would\<close>.
\<close>

theorem dry_run_message_counterexample:
  "fst (validateConfig example_env example_config world0) = None \<and>
   Message (fst (fst (uploadPackage example_env example_plugin example_config
                        \<lparr>Version = ''v1.2.3''\<rparr> True world0))) =
     ''Would upload package to https://upload.pypi.org/legacy/'' \<and>
   \<not> strings_Contains
        (Message (fst (fst (uploadPackage example_env example_plugin example_config
                              \<lparr>Version = ''v1.2.3''\<rparr> True world0)))) ''would''"
  by code_simp

section \<open>The path validator\<close>

lemma no_traversal_empty:
  "\<not> (strings_HasPrefix (globStripped []) ''..'' \<or> strings_Contains (globStripped []) ''/..'')"
  by (simp add: filepath_Clean_def strings_HasPrefix_def)

text \<open>
  C8, as the code has it. If the cleaned path without its \<open>*\<close> characters starts with
  \<open>..\<close> or contains \<open>/..\<close>, the validator rejects the path. The checks run in
  order, so the violation is the one of the first check that fails: the length check
  for a path of more than 256 bytes, the character check for a path with a character
  outside the allowed set, and the path traversal violation for every other such
  path, with or without \<open>*\<close> characters in it.
\<close>

theorem validateDistPath_traversal:
  assumes "strings_HasPrefix (globStripped path) ''..'' \<or>
           strings_Contains (globStripped path) ''/..''"
  shows "validateDistPath path =
           Some (if length path > 256 then ''dist path too long (max 256 characters)''
                 else if \<not> distPathPattern_MatchString path
                      then ''dist path contains invalid characters''
                 else ''path traversal detected: cannot use '..' to escape working directory'')"
proof -
  have "path \<noteq> []" using assms no_traversal_empty by blast
  with assms show ?thesis
    by (simp add: validateDistPath_def Let_def filepath_Separator_def)
qed

theorem validateDistPath_traversal_witness:
  "strings_HasPrefix (globStripped ''../../etc/passwd'') ''..''
   \<and> validateDistPath ''../../etc/passwd'' =
       Some ''path traversal detected: cannot use '..' to escape working directory''
   \<and> filepath_Clean ''dist/../../*.whl'' = ''../*.whl''
   \<and> validateDistPath ''dist/../../*.whl'' =
       Some ''path traversal detected: cannot use '..' to escape working directory''
   \<and> strings_Contains (globStripped ''build/*../x'') ''/..''
   \<and> validateDistPath ''build/*../x'' =
       Some ''path traversal detected: cannot use '..' to escape working directory''"
proof -
  have h1: "strings_HasPrefix (globStripped ''../../etc/passwd'') ''..''" by code_simp
  have c2: "filepath_Clean ''dist/../../*.whl'' = ''../*.whl''" by code_simp
  then have h2: "strings_HasPrefix (globStripped ''dist/../../*.whl'') ''..''"
    by (simp add: strings_HasPrefix_def)
  have h3: "strings_Contains (globStripped ''build/*../x'') ''/..''" by code_simp
  have m: "distPathPattern_MatchString ''../../etc/passwd''"
    "distPathPattern_MatchString ''dist/../../*.whl''"
    "distPathPattern_MatchString ''build/*../x''"
    by code_simp+
  from validateDistPath_traversal [of "''../../etc/passwd''"]
       validateDistPath_traversal [of "''dist/../../*.whl''"]
       validateDistPath_traversal [of "''build/*../x''"]
       h1 h2 h3 c2 m
  show ?thesis by simp
qed

text \<open>
  C8 as it is stated promises the path traversal violation for every such path. The
  path \<open>../a b\<close> is one (its cleaned form starts with \<open>..\<close>), and the validator
  rejects it for its characters.
\<close>

theorem traversal_counterexample:
  "strings_HasPrefix (globStripped ''../a b'') ''..'' \<and>
   validateDistPath ''../a b'' = Some ''dist path contains invalid characters'' \<and>
   \<not> strings_Contains ''dist path contains invalid characters'' ''path traversal''"
  by code_simp

text \<open>
  C9, as the code has it. The validator rejects every absolute path. The check for
  absolute paths is the last one, so the violation is the one of the first check that
  fails: the length check, then the character check, then the traversal check, and
  the absolute path violation for an absolute path that passes these three.
\<close>

theorem validateDistPath_absolute:
  assumes "filepath_IsAbs path"
  shows "validateDistPath path =
           Some (if length path > 256 then ''dist path too long (max 256 characters)''
                 else if \<not> distPathPattern_MatchString path
                      then ''dist path contains invalid characters''
                 else if strings_HasPrefix (globStripped path) ''..'' \<or>
                         strings_Contains (globStripped path) ''/..''
                      then ''path traversal detected: cannot use '..' to escape working directory''
                 else ''absolute paths are not allowed'')"
proof -
  have "path \<noteq> []"
    using assms by (auto simp add: filepath_IsAbs_def strings_HasPrefix_def)
  with assms show ?thesis
    by (simp add: validateDistPath_def Let_def filepath_Separator_def)
qed

theorem validateDistPath_absolute_witness:
  "filepath_IsAbs ''/etc/passwd''
   \<and> validateDistPath ''/etc/passwd'' = Some ''absolute paths are not allowed''"
proof -
  have h: "filepath_IsAbs ''/etc/passwd''" by code_simp
  have m: "distPathPattern_MatchString ''/etc/passwd''" by code_simp
  have t: "\<not> (strings_HasPrefix (globStripped ''/etc/passwd'') ''..'' \<or>
              strings_Contains (globStripped ''/etc/passwd'') ''/..'')"
    by code_simp
  from validateDistPath_absolute [OF h] m t h
  show ?thesis by simp
qed

text \<open>
  C9 as it is stated promises the absolute path violation whatever the characters and
  the traversal check say. The absolute path \<open>/etc/pass wd\<close> is rejected for its
  characters, and the absolute path \<open>/srv/..cache/dist\<close> is rejected by the
  traversal check.
\<close>

theorem absolute_counterexample:
  "filepath_IsAbs ''/etc/pass wd'' \<and>
   validateDistPath ''/etc/pass wd'' = Some ''dist path contains invalid characters'' \<and>
   filepath_IsAbs ''/srv/..cache/dist'' \<and>
   validateDistPath ''/srv/..cache/dist'' =
     Some ''path traversal detected: cannot use '..' to escape working directory''"
  by code_simp

section \<open>The IP classifier\<close>

lemma ParseCIDR_literals:
  "net_ParseCIDR ''10.0.0.0/8'' = Inr \<lparr>IP = [10, 0, 0, 0], Mask = [255, 0, 0, 0]\<rparr>"
  "net_ParseCIDR ''172.16.0.0/12'' = Inr \<lparr>IP = [172, 16, 0, 0], Mask = [255, 240, 0, 0]\<rparr>"
  "net_ParseCIDR ''192.168.0.0/16'' = Inr \<lparr>IP = [192, 168, 0, 0], Mask = [255, 255, 0, 0]\<rparr>"
  "net_ParseCIDR ''127.0.0.0/8'' = Inr \<lparr>IP = [127, 0, 0, 0], Mask = [255, 0, 0, 0]\<rparr>"
  "net_ParseCIDR ''169.254.0.0/16'' = Inr \<lparr>IP = [169, 254, 0, 0], Mask = [255, 255, 0, 0]\<rparr>"
  "net_ParseCIDR ''0.0.0.0/8'' = Inr \<lparr>IP = [0, 0, 0, 0], Mask = [255, 0, 0, 0]\<rparr>"
  "net_ParseCIDR ''169.254.169.254/32'' =
     Inr \<lparr>IP = [169, 254, 169, 254], Mask = [255, 255, 255, 255]\<rparr>"
  "net_ParseCIDR ''fd00:ec2::254/128'' =
     Inr \<lparr>IP = metadataIPv6,
          Mask = [255, 255, 255, 255, 255, 255, 255, 255,
                  255, 255, 255, 255, 255, 255, 255, 255]\<rparr>"
  by code_simp+

lemma byte_and_255: "(a :: byte) AND 255 = a"
proof -
  have "(255 :: byte) = - 1" by simp
  then show ?thesis by (simp only: and.right_neutral)
qed

lemma To4_v4: "IP_To4 [a, b, c, d] = Some [a, b, c, d]"
  by (simp add: IP_To4_def)

lemma To4_mapped: "IP_To4 (v4InV6Prefix @ [a, b, c, d]) = Some [a, b, c, d]"
  by (simp add: IP_To4_def v4InV6Prefix_def)

lemma Contains_v4_plain:
  "IPNet_Contains \<lparr>IP = [n1, n2, n3, n4], Mask = [m1, m2, m3, m4]\<rparr> [a, b, c, d] =
     (n1 AND m1 = a AND m1 \<and> n2 AND m2 = b AND m2 \<and>
      n3 AND m3 = c AND m3 \<and> n4 AND m4 = d AND m4)"
  by (auto simp add: IPNet_Contains_def networkNumberAndMask_def To4_v4)

lemma Contains_v4_mapped:
  "IPNet_Contains \<lparr>IP = [n1, n2, n3, n4], Mask = [m1, m2, m3, m4]\<rparr>
     (v4InV6Prefix @ [a, b, c, d]) =
     (n1 AND m1 = a AND m1 \<and> n2 AND m2 = b AND m2 \<and>
      n3 AND m3 = c AND m3 \<and> n4 AND m4 = d AND m4)"
  by (auto simp add: IPNet_Contains_def networkNumberAndMask_def To4_v4 To4_mapped)

lemma Contains_v4:
  assumes "ip = [a, b, c, d] \<or> ip = v4InV6Prefix @ [a, b, c, d]"
  shows "IPNet_Contains \<lparr>IP = [n1, n2, n3, n4], Mask = [m1, m2, m3, m4]\<rparr> ip =
     (n1 AND m1 = a AND m1 \<and> n2 AND m2 = b AND m2 \<and>
      n3 AND m3 = c AND m3 \<and> n4 AND m4 = d AND m4)"
  using assms by (auto simp only: Contains_v4_plain Contains_v4_mapped)

lemma metadata_network:
  "networkNumberAndMask
     \<lparr>IP = metadataIPv6,
      Mask = [255, 255, 255, 255, 255, 255, 255, 255,
              255, 255, 255, 255, 255, 255, 255, 255]\<rparr> =
   (metadataIPv6,
    [255, 255, 255, 255, 255, 255, 255, 255, 255, 255, 255, 255, 255, 255, 255, 255])"
  by code_simp

lemma Contains_metadata_v4:
  assumes "ip = [a, b, c, d] \<or> ip = v4InV6Prefix @ [a, b, c, d]"
  shows "\<not> IPNet_Contains
             \<lparr>IP = metadataIPv6,
              Mask = [255, 255, 255, 255, 255, 255, 255, 255,
                      255, 255, 255, 255, 255, 255, 255, 255]\<rparr> ip"
proof -
  have "length metadataIPv6 = 16" by (simp add: metadataIPv6_def)
  with assms show ?thesis
    by (auto simp add: IPNet_Contains_def metadata_network To4_v4 To4_mapped)
qed

text \<open>What the loop over the ranges decides for an IPv4 address, in either form.\<close>

lemma inRanges_v4:
  assumes "ip = [a, b, c, d] \<or> ip = v4InV6Prefix @ [a, b, c, d]"
  shows "inRanges (privateRanges @ cloudMetadata) ip =
     (a = 10 \<or> (a = 172 \<and> b AND 240 = 16) \<or> (a = 192 \<and> b = 168) \<or> a = 127 \<or>
      (a = 169 \<and> b = 254) \<or> a = 0)"
  using Contains_metadata_v4 [OF assms]
  by (simp add: privateRanges_def cloudMetadata_def ParseCIDR_literals
        Contains_v4 [OF assms] byte_and_255)

lemma byte_enum: "(b :: byte) \<in> set (map of_nat [0..<256])"
proof -
  have "unat b < 256" using unsigned_less [of b, where ?'a = nat] by simp
  then have "unat b \<in> set [0..<256]" by simp
  then have "of_nat (unat b) \<in> set (map of_nat [0..<256] :: byte list)"
    by (simp only: set_map) (rule imageI)
  then show ?thesis by simp
qed

lemma byte_240_all:
  "\<forall>b \<in> set (map of_nat [0..<256] :: byte list).
      (b AND 240 = 16) = (16 \<le> unat b \<and> unat b \<le> 31)"
  by code_simp

lemma byte_240: "((b :: byte) AND 240 = 16) = (16 \<le> unat b \<and> unat b \<le> 31)"
  using byte_enum [of b] byte_240_all by blast

lemma unat_byte: "unat (a :: byte) < 256"
  using unsigned_less [of a, where ?'a = nat] by simp

lemma length4: "length xs = 4 \<Longrightarrow> \<exists>a b c d. xs = [a, b, c, d]"
  by (auto simp add: numeral_eq_Suc length_Suc_conv)

lemma be_number4:
  "be_number [a, b, c, d] = 16777216 * unat a + 65536 * unat b + 256 * unat c + unat d"
  by (simp add: be_number_def)

lemma ipv4_number_forms:
  assumes "ipv4_number ip = Some v"
  shows "\<exists>a b c d. (ip = [a, b, c, d] \<or> ip = v4InV6Prefix @ [a, b, c, d]) \<and>
           v = 16777216 * unat a + 65536 * unat b + 256 * unat c + unat d"
proof (cases "length ip = 4")
  case True
  then obtain a b c d where "ip = [a, b, c, d]" using length4 by blast
  with assms show ?thesis by (auto simp add: ipv4_number_def be_number4)
next
  case False
  with assms have l: "length ip = 16" and p: "take 12 ip = v4InV6Prefix"
    and v: "v = be_number (drop 12 ip)"
    by (auto simp add: ipv4_number_def split: if_splits)
  from l have "length (drop 12 ip) = 4" by simp
  then obtain a b c d where d: "drop 12 ip = [a, b, c, d]" using length4 by blast
  have "ip = take 12 ip @ drop 12 ip" by simp
  with p d have "ip = v4InV6Prefix @ [a, b, c, d]" by simp
  with v d show ?thesis by (auto simp add: be_number4)
qed

lemma in_ipv4_block_forms:
  assumes "in_ipv4_block net n ip"
  obtains a b c d where
    "ip = [a, b, c, d] \<or> ip = v4InV6Prefix @ [a, b, c, d]"
    "(16777216 * unat a + 65536 * unat b + 256 * unat c + unat d) div 2 ^ (32 - n) =
       be_number net div 2 ^ (32 - n)"
proof -
  from assms obtain v where v: "ipv4_number ip = Some v"
    and e: "v div 2 ^ (32 - n) = be_number net div 2 ^ (32 - n)"
    by (auto simp add: in_ipv4_block_def split: option.splits)
  from ipv4_number_forms [OF v] e that show ?thesis by blast
qed

lemma div_bounds:
  assumes "(m::nat) div n = q" and "0 < n"
  shows "q * n \<le> m \<and> m < q * n + n"
  using div_times_less_eq_dividend [of m n] dividend_less_div_times [of n m] assms
  by (simp add: add.commute)

lemma block_8:
  assumes "(16777216 * unat (a::byte) + 65536 * unat (b::byte) + 256 * unat (c::byte) +
            unat (d::byte)) div 2 ^ (32 - 8) = be_number [k, 0, 0, 0] div 2 ^ (32 - 8)"
  shows "a = k"
proof -
  have "be_number [k, 0, 0, 0] div 2 ^ (32 - 8) = unat k"
    by (simp add: be_number4)
  with assms have
    "(16777216 * unat a + 65536 * unat b + 256 * unat c + unat d) div 16777216 = unat k"
    by simp
  from div_bounds [OF this] have "unat a = unat k"
    using unat_byte [of a] unat_byte [of b] unat_byte [of c] unat_byte [of d]
    by simp
  then show ?thesis by (simp add: word_unat_eq_iff)
qed

lemma block_16:
  assumes "(16777216 * unat (a::byte) + 65536 * unat (b::byte) + 256 * unat (c::byte) +
            unat (d::byte)) div 2 ^ (32 - 16) = be_number [k, l, 0, 0] div 2 ^ (32 - 16)"
  shows "a = k \<and> b = l"
proof -
  have "be_number [k, l, 0, 0] = 65536 * (256 * unat k + unat l)"
    by (simp add: be_number4)
  then have "be_number [k, l, 0, 0] div 2 ^ (32 - 16) = 256 * unat k + unat l"
    by simp
  with assms have
    "(16777216 * unat a + 65536 * unat b + 256 * unat c + unat d) div 65536 =
       256 * unat k + unat l"
    by simp
  from div_bounds [OF this] have
    lo: "16777216 * unat k + 65536 * unat l \<le>
           16777216 * unat a + 65536 * unat b + 256 * unat c + unat d" and
    hi: "16777216 * unat a + 65536 * unat b + 256 * unat c + unat d <
           16777216 * unat k + 65536 * unat l + 65536"
    by simp_all
  have a: "unat a = unat k"
    using lo hi unat_byte [of b] unat_byte [of c] unat_byte [of d] unat_byte [of l]
    by linarith
  have "unat b = unat l"
    using lo hi a unat_byte [of c] unat_byte [of d]
    by linarith
  with a show ?thesis by (simp add: word_unat_eq_iff)
qed

lemma block_12:
  assumes "(16777216 * unat (a::byte) + 65536 * unat (b::byte) + 256 * unat (c::byte) +
            unat (d::byte)) div 2 ^ (32 - 12) = be_number [172, 16, 0, 0] div 2 ^ (32 - 12)"
  shows "a = 172 \<and> b AND 240 = 16"
proof -
  have "be_number [172, 16, 0, 0] div 2 ^ (32 - 12) = 2753"
    by (simp add: be_number4)
  with assms have
    "(16777216 * unat a + 65536 * unat b + 256 * unat c + unat d) div 1048576 = 2753"
    by simp
  from div_bounds [OF this] have
    lo: "2886729728 \<le> 16777216 * unat a + 65536 * unat b + 256 * unat c + unat d" and
    hi: "16777216 * unat a + 65536 * unat b + 256 * unat c + unat d < 2887778304"
    by simp_all
  have a: "unat a = 172"
    using lo hi unat_byte [of b] unat_byte [of c] unat_byte [of d]
    by linarith
  have b: "16 \<le> unat b \<and> unat b \<le> 31"
    using lo hi a unat_byte [of c] unat_byte [of d]
    by linarith
  from a have "a = 172" by (simp add: word_unat_eq_iff)
  with b show ?thesis by (simp add: byte_240)
qed

lemma block_32:
  assumes "(16777216 * unat (a::byte) + 65536 * unat (b::byte) + 256 * unat (c::byte) +
            unat (d::byte)) div 2 ^ (32 - 32) = be_number [k, l, m, n] div 2 ^ (32 - 32)"
  shows "a = k \<and> b = l"
proof -
  from assms have
    e: "16777216 * unat a + 65536 * unat b + 256 * unat c + unat d =
        16777216 * unat k + 65536 * unat l + 256 * unat m + unat n"
    by (simp add: be_number4)
  have a: "unat a = unat k"
    using e unat_byte [of b] unat_byte [of c] unat_byte [of d]
      unat_byte [of l] unat_byte [of m] unat_byte [of n]
    by linarith
  have "unat b = unat l"
    using e a unat_byte [of c] unat_byte [of d] unat_byte [of m] unat_byte [of n]
    by linarith
  with a show ?thesis by (simp add: word_unat_eq_iff)
qed

lemma isPrivateIP_inRanges:
  "inRanges (privateRanges @ cloudMetadata) ip \<Longrightarrow> isPrivateIP ip"
  by (simp add: isPrivateIP_def)

lemma isPrivateIP_generic:
  "IP_IsLoopback ip \<or> IP_IsLinkLocalUnicast ip \<or> IP_IsLinkLocalMulticast ip \<or> IP_IsPrivate ip
   \<Longrightarrow> isPrivateIP ip"
  by (auto simp add: isPrivateIP_def)

lemma isPrivateIP_v6_literals: "isPrivateIP metadataIPv6" "isPrivateIP IPv6loopback"
  by code_simp+

lemma isPrivateIP_block:
  assumes "in_ipv4_block [10, 0, 0, 0] 8 ip \<or> in_ipv4_block [172, 16, 0, 0] 12 ip \<or>
           in_ipv4_block [192, 168, 0, 0] 16 ip \<or> in_ipv4_block [127, 0, 0, 0] 8 ip \<or>
           in_ipv4_block [169, 254, 0, 0] 16 ip \<or> in_ipv4_block [0, 0, 0, 0] 8 ip \<or>
           in_ipv4_block [169, 254, 169, 254] 32 ip"
  shows "isPrivateIP ip"
proof -
  consider
      (ten) "in_ipv4_block [10, 0, 0, 0] 8 ip"
    | (twelve) "in_ipv4_block [172, 16, 0, 0] 12 ip"
    | (sixteen) "in_ipv4_block [192, 168, 0, 0] 16 ip"
    | (loopback) "in_ipv4_block [127, 0, 0, 0] 8 ip"
    | (linklocal) "in_ipv4_block [169, 254, 0, 0] 16 ip"
    | (zero) "in_ipv4_block [0, 0, 0, 0] 8 ip"
    | (metadata) "in_ipv4_block [169, 254, 169, 254] 32 ip"
    using assms by blast
  then show ?thesis
  proof cases
    case ten
    from in_ipv4_block_forms [OF ten] obtain a b c d where
      f: "ip = [a, b, c, d] \<or> ip = v4InV6Prefix @ [a, b, c, d]" and
      e: "(16777216 * unat a + 65536 * unat b + 256 * unat c + unat d) div 2 ^ (32 - 8) =
            be_number [10, 0, 0, 0] div 2 ^ (32 - 8)"
      by blast
    from block_8 [OF e] inRanges_v4 [OF f] show ?thesis
      by (simp add: isPrivateIP_inRanges)
  next
    case twelve
    from in_ipv4_block_forms [OF twelve] obtain a b c d where
      f: "ip = [a, b, c, d] \<or> ip = v4InV6Prefix @ [a, b, c, d]" and
      e: "(16777216 * unat a + 65536 * unat b + 256 * unat c + unat d) div 2 ^ (32 - 12) =
            be_number [172, 16, 0, 0] div 2 ^ (32 - 12)"
      by blast
    from block_12 [OF e] inRanges_v4 [OF f] show ?thesis
      by (simp add: isPrivateIP_inRanges)
  next
    case sixteen
    from in_ipv4_block_forms [OF sixteen] obtain a b c d where
      f: "ip = [a, b, c, d] \<or> ip = v4InV6Prefix @ [a, b, c, d]" and
      e: "(16777216 * unat a + 65536 * unat b + 256 * unat c + unat d) div 2 ^ (32 - 16) =
            be_number [192, 168, 0, 0] div 2 ^ (32 - 16)"
      by blast
    from block_16 [OF e] inRanges_v4 [OF f] show ?thesis
      by (simp add: isPrivateIP_inRanges)
  next
    case loopback
    from in_ipv4_block_forms [OF loopback] obtain a b c d where
      f: "ip = [a, b, c, d] \<or> ip = v4InV6Prefix @ [a, b, c, d]" and
      e: "(16777216 * unat a + 65536 * unat b + 256 * unat c + unat d) div 2 ^ (32 - 8) =
            be_number [127, 0, 0, 0] div 2 ^ (32 - 8)"
      by blast
    from block_8 [OF e] inRanges_v4 [OF f] show ?thesis
      by (simp add: isPrivateIP_inRanges)
  next
    case linklocal
    from in_ipv4_block_forms [OF linklocal] obtain a b c d where
      f: "ip = [a, b, c, d] \<or> ip = v4InV6Prefix @ [a, b, c, d]" and
      e: "(16777216 * unat a + 65536 * unat b + 256 * unat c + unat d) div 2 ^ (32 - 16) =
            be_number [169, 254, 0, 0] div 2 ^ (32 - 16)"
      by blast
    from block_16 [OF e] inRanges_v4 [OF f] show ?thesis
      by (simp add: isPrivateIP_inRanges)
  next
    case zero
    from in_ipv4_block_forms [OF zero] obtain a b c d where
      f: "ip = [a, b, c, d] \<or> ip = v4InV6Prefix @ [a, b, c, d]" and
      e: "(16777216 * unat a + 65536 * unat b + 256 * unat c + unat d) div 2 ^ (32 - 8) =
            be_number [0, 0, 0, 0] div 2 ^ (32 - 8)"
      by blast
    from block_8 [OF e] inRanges_v4 [OF f] show ?thesis
      by (simp add: isPrivateIP_inRanges)
  next
    case metadata
    from in_ipv4_block_forms [OF metadata] obtain a b c d where
      f: "ip = [a, b, c, d] \<or> ip = v4InV6Prefix @ [a, b, c, d]" and
      e: "(16777216 * unat a + 65536 * unat b + 256 * unat c + unat d) div 2 ^ (32 - 32) =
            be_number [169, 254, 169, 254] div 2 ^ (32 - 32)"
      by blast
    from block_32 [OF e] inRanges_v4 [OF f] show ?thesis
      by (simp add: isPrivateIP_inRanges)
  qed
qed

text \<open>
  C6. \<open>isPrivateIP\<close> is a function of the address bytes alone: it takes neither the
  environment nor the world. It holds of every address in the IPv4 blocks
  \<open>10.0.0.0/8\<close>, \<open>172.16.0.0/12\<close>, \<open>192.168.0.0/16\<close>, \<open>127.0.0.0/8\<close>,
  \<open>169.254.0.0/16\<close> and \<open>0.0.0.0/8\<close> and of the metadata address
  \<open>169.254.169.254\<close>, in the 4-byte and in the IPv4-mapped form, of the IPv6
  metadata address \<open>fd00:ec2::254\<close>, of the IPv6 loopback address \<open>::1\<close>, and of
  every address of which one of Go's predicates \<open>IsLoopback\<close>,
  \<open>IsLinkLocalUnicast\<close>, \<open>IsLinkLocalMulticast\<close> and \<open>IsPrivate\<close> holds.
\<close>

theorem isPrivateIP_disallowed:
  assumes "in_ipv4_block [10, 0, 0, 0] 8 ip \<or> in_ipv4_block [172, 16, 0, 0] 12 ip \<or>
           in_ipv4_block [192, 168, 0, 0] 16 ip \<or> in_ipv4_block [127, 0, 0, 0] 8 ip \<or>
           in_ipv4_block [169, 254, 0, 0] 16 ip \<or> in_ipv4_block [0, 0, 0, 0] 8 ip \<or>
           in_ipv4_block [169, 254, 169, 254] 32 ip \<or>
           ip = metadataIPv6 \<or> ip = IPv6loopback \<or>
           IP_IsLoopback ip \<or> IP_IsLinkLocalUnicast ip \<or> IP_IsLinkLocalMulticast ip \<or>
           IP_IsPrivate ip"
  shows "isPrivateIP ip"
proof -
  consider
      (block) "in_ipv4_block [10, 0, 0, 0] 8 ip \<or> in_ipv4_block [172, 16, 0, 0] 12 ip \<or>
               in_ipv4_block [192, 168, 0, 0] 16 ip \<or> in_ipv4_block [127, 0, 0, 0] 8 ip \<or>
               in_ipv4_block [169, 254, 0, 0] 16 ip \<or> in_ipv4_block [0, 0, 0, 0] 8 ip \<or>
               in_ipv4_block [169, 254, 169, 254] 32 ip"
    | (literal) "ip = metadataIPv6 \<or> ip = IPv6loopback"
    | (generic) "IP_IsLoopback ip \<or> IP_IsLinkLocalUnicast ip \<or>
                 IP_IsLinkLocalMulticast ip \<or> IP_IsPrivate ip"
    using assms by blast
  then show ?thesis
  proof cases
    case block
    then show ?thesis by (rule isPrivateIP_block)
  next
    case literal
    then show ?thesis using isPrivateIP_v6_literals by blast
  next
    case generic
    then show ?thesis by (rule isPrivateIP_generic)
  qed
qed

text \<open>Addresses of the repository's tests and one address for each generic predicate:
  \<open>fe80::1\<close> is link-local unicast, \<open>ff02::1\<close> link-local multicast, \<open>fc00::1\<close>
  private, and \<open>224.0.0.251\<close> link-local multicast.\<close>

theorem isPrivateIP_disallowed_witness:
  "in_ipv4_block [10, 0, 0, 0] 8 [10, 0, 0, 1] \<and> isPrivateIP [10, 0, 0, 1]
   \<and> in_ipv4_block [172, 16, 0, 0] 12 [172, 31, 255, 255] \<and> isPrivateIP [172, 31, 255, 255]
   \<and> in_ipv4_block [192, 168, 0, 0] 16 (v4InV6Prefix @ [192, 168, 1, 1])
   \<and> isPrivateIP (v4InV6Prefix @ [192, 168, 1, 1])
   \<and> in_ipv4_block [127, 0, 0, 0] 8 [127, 0, 0, 1] \<and> isPrivateIP [127, 0, 0, 1]
   \<and> in_ipv4_block [169, 254, 0, 0] 16 [169, 254, 1, 1] \<and> isPrivateIP [169, 254, 1, 1]
   \<and> in_ipv4_block [0, 0, 0, 0] 8 [0, 1, 2, 3] \<and> isPrivateIP [0, 1, 2, 3]
   \<and> in_ipv4_block [169, 254, 169, 254] 32 [169, 254, 169, 254]
   \<and> isPrivateIP [169, 254, 169, 254]
   \<and> isPrivateIP metadataIPv6 \<and> isPrivateIP IPv6loopback
   \<and> IP_IsLinkLocalUnicast [0xfe, 0x80, 0, 0, 0, 0, 0, 0, 0, 0, 0, 0, 0, 0, 0, 1]
   \<and> isPrivateIP [0xfe, 0x80, 0, 0, 0, 0, 0, 0, 0, 0, 0, 0, 0, 0, 0, 1]
   \<and> IP_IsLinkLocalMulticast [0xff, 0x02, 0, 0, 0, 0, 0, 0, 0, 0, 0, 0, 0, 0, 0, 1]
   \<and> isPrivateIP [0xff, 0x02, 0, 0, 0, 0, 0, 0, 0, 0, 0, 0, 0, 0, 0, 1]
   \<and> IP_IsPrivate [0xfc, 0, 0, 0, 0, 0, 0, 0, 0, 0, 0, 0, 0, 0, 0, 1]
   \<and> isPrivateIP [0xfc, 0, 0, 0, 0, 0, 0, 0, 0, 0, 0, 0, 0, 0, 0, 1]
   \<and> IP_IsLinkLocalMulticast [224, 0, 0, 251] \<and> isPrivateIP [224, 0, 0, 251]"
proof -
  have h:
    "in_ipv4_block [10, 0, 0, 0] 8 [10, 0, 0, 1]"
    "in_ipv4_block [172, 16, 0, 0] 12 [172, 31, 255, 255]"
    "in_ipv4_block [192, 168, 0, 0] 16 (v4InV6Prefix @ [192, 168, 1, 1])"
    "in_ipv4_block [127, 0, 0, 0] 8 [127, 0, 0, 1]"
    "in_ipv4_block [169, 254, 0, 0] 16 [169, 254, 1, 1]"
    "in_ipv4_block [0, 0, 0, 0] 8 [0, 1, 2, 3]"
    "in_ipv4_block [169, 254, 169, 254] 32 [169, 254, 169, 254]"
    "IP_IsLinkLocalUnicast [0xfe, 0x80, 0, 0, 0, 0, 0, 0, 0, 0, 0, 0, 0, 0, 0, 1]"
    "IP_IsLinkLocalMulticast [0xff, 0x02, 0, 0, 0, 0, 0, 0, 0, 0, 0, 0, 0, 0, 0, 1]"
    "IP_IsPrivate [0xfc, 0, 0, 0, 0, 0, 0, 0, 0, 0, 0, 0, 0, 0, 0, 1]"
    "IP_IsLinkLocalMulticast [224, 0, 0, 251]"
    by (simp_all add: in_ipv4_block_def ipv4_number_def be_number_def v4InV6Prefix_def
          IP_IsLinkLocalUnicast_def IP_IsLinkLocalMulticast_def IP_IsPrivate_def IP_To4_def)
  have
    "isPrivateIP [10, 0, 0, 1]"
    "isPrivateIP [172, 31, 255, 255]"
    "isPrivateIP (v4InV6Prefix @ [192, 168, 1, 1])"
    "isPrivateIP [127, 0, 0, 1]"
    "isPrivateIP [169, 254, 1, 1]"
    "isPrivateIP [0, 1, 2, 3]"
    "isPrivateIP [169, 254, 169, 254]"
    "isPrivateIP metadataIPv6"
    "isPrivateIP IPv6loopback"
    "isPrivateIP [0xfe, 0x80, 0, 0, 0, 0, 0, 0, 0, 0, 0, 0, 0, 0, 0, 1]"
    "isPrivateIP [0xff, 0x02, 0, 0, 0, 0, 0, 0, 0, 0, 0, 0, 0, 0, 0, 1]"
    "isPrivateIP [0xfc, 0, 0, 0, 0, 0, 0, 0, 0, 0, 0, 0, 0, 0, 0, 1]"
    "isPrivateIP [224, 0, 0, 251]"
    using h by (blast intro: isPrivateIP_disallowed)+
  with h show ?thesis by simp
qed

text \<open>The classifier is not constantly true: the public addresses of the repository's
  tests are not classified as private.\<close>

lemma isPrivateIP_public_examples:
  "\<not> isPrivateIP [8, 8, 8, 8]" "\<not> isPrivateIP [1, 1, 1, 1]"
  "\<not> isPrivateIP (v4InV6Prefix @ [8, 8, 4, 4])" "\<not> isPrivateIP [172, 32, 0, 0]"
  "\<not> isPrivateIP [0x26, 0x07, 0xf8, 0xb0, 0x40, 0x04, 0x08, 0, 0, 0, 0, 0, 0, 0, 0x20, 0x0e]"
  by code_simp+

end
